theory Spec2Isabelle
  imports Main
begin

section \<open>The permissions facade of @arcstack/permissions\<close>

text \<open>
  A shallow embedding of \<^verbatim>\<open>packages/permissions/src/PermissionsAPI.ts\<close> and of the types
  it uses. The class keeps one piece of private state, the identity-keyed WeakMap
  \<^verbatim>\<open>#events\<close>; everything else that changes over time belongs to the browser (the live
  \<^verbatim>\<open>PermissionStatus\<close> objects and their \<^verbatim>\<open>onchange\<close> property) or to the promise
  machinery (a provider call in flight, the promise an async handler returned).
  All of it is collected in one record, \<open>world\<close>, and every function of the class is a
  function on worlds.

  Objects with identity are addresses: a handler function object is its index in the
  list of handlers created so far, a \<^verbatim>\<open>PermissionStatus\<close> object is a natural number,
  and one call of a handler is its index in the list of invocations.

  Callbacks supplied by the application are opaque: a callback is a value of the type
  parameter \<open>'c\<close>, and calling it appends one entry (which callback, with which argument)
  to the trace of the world. A call returns or throws. Inside the promise chain of a
  handler, where \<^verbatim>\<open>.catch\<close> stands behind \<^verbatim>\<open>.then\<close>, which of the two happens is a
  parameter of the model, the behaviour of the callbacks. A callback does not call back
  into the class.
\<close>

subsection \<open>types.ts\<close>

type_synonym ref = nat
type_synonym hid = nat
type_synonym qid = nat

text \<open>The \<^verbatim>\<open>state\<close> of a platform \<^verbatim>\<open>PermissionStatus\<close>.\<close>

datatype PermissionState = Granted | Denied | Prompt

record PermissionOption =
  name :: string
  sysex :: "bool option"
  userVisibleOnly :: "bool option"

text \<open>What \<^verbatim>\<open>Permissions.query\<close> throws: the code reads \<^verbatim>\<open>error.name\<close> and
  \<^verbatim>\<open>error.message\<close> only.\<close>

record PlatformError =
  error_name :: string
  error_message :: string

datatype ErrorState = Unsupported | Invalid

text \<open>\<^verbatim>\<open>PermissionError\<close>: \<^verbatim>\<open>{ state, name, message }\<close>.\<close>

record PermissionError =
  e_state :: ErrorState
  e_name :: string
  e_message :: string

text \<open>\<^verbatim>\<open>PermissionHandlerOption\<close>: three optional callbacks given to the constructor.\<close>

record 'c PermissionHandlerOption =
  granted :: "'c option"
  denied :: "'c option"
  error :: "'c option"

text \<open>\<^verbatim>\<open>HandlerEvents\<close>: the registration record held in \<^verbatim>\<open>#events\<close>.\<close>

record 'c HandlerEvents =
  onPermissionChange :: "'c option"
  onPermissionGranted :: "'c option"
  onPermissionDenied :: "'c option"
  onPermissionError :: "'c option"

text \<open>\<^verbatim>\<open>AsyncPermissionResponse\<close>: \<^verbatim>\<open>null\<close> is \<open>None\<close>, a response is the status object.\<close>

record AsyncPermissionResponse =
  res_granted :: "ref option"
  res_denied :: "ref option"

subsection \<open>Promises, closures and the world\<close>

datatype ('e, 'a) promise =
    is_Pending: Pending
  | is_Resolved: Resolved (result: 'a)
  | is_Rejected: Rejected (reason: 'e)

text \<open>
  The arrow functions assigned to \<^verbatim>\<open>_permission.onchange\<close>. Each captures the handler
  whose \<^verbatim>\<open>_events\<close> it reads and the status object \<^verbatim>\<open>_permission\<close>; the one of the sync
  handler also captures \<^verbatim>\<open>handlerOption\<close>.
\<close>

datatype 'c listener =
    SyncChange (owner: hid) "'c PermissionHandlerOption option" ref
  | AsyncChange (owner: hid) ref

record 'c PermissionStatus =
  state :: PermissionState
  onchange :: "'c listener option"

text \<open>The function objects \<^verbatim>\<open>_handler\<close> with what their closures captured.\<close>

datatype 'c handler =
    SyncHandler PermissionOption "'c PermissionHandlerOption option"
  | AsyncHandler PermissionOption

text \<open>A value thrown by a callback.\<close>

type_synonym thrown = string

text \<open>
  The parameter \<^verbatim>\<open>error\<close> of a \<^verbatim>\<open>.catch\<close> callback: the classified error
  \<^verbatim>\<open>getPermission\<close> rejected with, or what the \<^verbatim>\<open>.then\<close> callback before it threw.
\<close>

datatype caught = Classified PermissionError | Raw thrown

text \<open>
  The argument a callback receives: a status object (its identity, and the \<^verbatim>\<open>state\<close> it
  shows during the call) or what the \<^verbatim>\<open>.catch\<close> callback caught.
\<close>

datatype arg = Status (object: ref) (shown: PermissionState) | Failure caught

datatype 'c call = Call (callee: 'c) (argument: arg)

text \<open>What a call of a handler hands back to its caller.\<close>

datatype returned = Undefined | Promise qid

text \<open>
  One call of a handler: the handler, whether the provider call it started has settled,
  and the state of the promise it returned (\<open>None\<close> for the sync handler, which returns
  nothing). A promise of an async handler is rejected with what its \<^verbatim>\<open>.catch\<close> callback
  caught.
\<close>

record invocation =
  inv_handler :: hid
  inv_settled :: bool
  inv_promise :: "(caught, AsyncPermissionResponse) promise option"

record 'c world =
  events :: "hid \<rightharpoonup> 'c HandlerEvents"
  handlers :: "'c handler list"
  statuses :: "ref \<Rightarrow> 'c PermissionStatus"
  invocations :: "invocation list"
  trace :: "'c call list"
  unhandled :: "thrown list"

text \<open>
  The last field collects the rejections that nothing handles: the reasons of the
  promises at the end of the chains \<^verbatim>\<open>getPermission(...).then(...).catch(...)\<close>, which the
  handlers drop.

  The state when the module has been loaded and nothing has been called:
\<close>

definition initial :: "'c world" where
  "initial = \<lparr> events = Map.empty, handlers = [],
     statuses = (\<lambda>_. \<lparr> state = Prompt, onchange = None \<rparr>),
     invocations = [], trace = [], unhandled = [] \<rparr>"

subsection \<open>getPermission\<close>

text \<open>
  \<^verbatim>\<open>getPermission(option)\<close>, with the provider \<^verbatim>\<open>navigator.permissions.query\<close> as a
  parameter: \<open>Inr\<close> is the status object it resolved to, \<open>Inl\<close> the error it threw. The
  result is how the returned promise settles. Where \<^verbatim>\<open>navigator.permissions\<close> is missing,
  the call of \<^verbatim>\<open>query\<close> itself raises a TypeError inside the \<^verbatim>\<open>try\<close> block: one more
  \<open>Inl\<close>.
\<close>

definition getPermission ::
  "(PermissionOption \<Rightarrow> PlatformError + ref) \<Rightarrow> PermissionOption \<Rightarrow> (PermissionError, ref) promise"
where
  "getPermission query option =
     (case query option of
        Inr status \<Rightarrow> Resolved status
      | Inl err \<Rightarrow>
          if error_name err = ''TypeError''
          then Rejected \<lparr> e_state = Unsupported, e_name = error_name err,
                          e_message = error_message err \<rparr>
          else Rejected \<lparr> e_state = Invalid, e_name = error_name err,
                          e_message = error_message err \<rparr>)"

subsection \<open>The handler constructors\<close>

text \<open>\<^verbatim>\<open>{}\<close>, the registration record a constructor stores for its new handler.\<close>

definition no_events :: "'c HandlerEvents" where
  "no_events = \<lparr> onPermissionChange = None, onPermissionGranted = None,
     onPermissionDenied = None, onPermissionError = None \<rparr>"

text \<open>
  \<^verbatim>\<open>#getHandler\<close> and \<^verbatim>\<open>#getAsyncHandler\<close> create the function object (a new identity: the
  next index of the list) and run \<^verbatim>\<open>#events.set(_handler, {})\<close>.
\<close>

definition getHandler ::
  "PermissionOption \<Rightarrow> 'c PermissionHandlerOption option \<Rightarrow> 'c world \<Rightarrow> hid \<times> 'c world"
where
  "getHandler permissionOption handlerOption w =
     (let handler = length (handlers w) in
      (handler,
       w\<lparr> handlers := handlers w @ [SyncHandler permissionOption handlerOption],
          events := (events w)(handler \<mapsto> no_events) \<rparr>))"

definition getAsyncHandler :: "PermissionOption \<Rightarrow> 'c world \<Rightarrow> hid \<times> 'c world" where
  "getAsyncHandler permissionOption w =
     (let handler = length (handlers w) in
      (handler,
       w\<lparr> handlers := handlers w @ [AsyncHandler permissionOption],
          events := (events w)(handler \<mapsto> no_events) \<rparr>))"

text \<open>
  The public constructors call the private ones, attach the four registration methods
  (below) and freeze the handler object; neither of the last two touches the world.
\<close>

definition getPermissionHandler ::
  "PermissionOption \<Rightarrow> 'c PermissionHandlerOption option \<Rightarrow> 'c world \<Rightarrow> hid \<times> 'c world"
where
  "getPermissionHandler permissionOption handlerOption w =
     getHandler permissionOption handlerOption w"

definition getAsyncPermissionHandler :: "PermissionOption \<Rightarrow> 'c world \<Rightarrow> hid \<times> 'c world" where
  "getAsyncPermissionHandler permissionOption w = getAsyncHandler permissionOption w"

subsection \<open>The registration methods\<close>

text \<open>
  \<^verbatim>\<open>handler.onPermissionChange = function (callback) {
     PermissionsAPI.#events.get(handler).onPermissionChange = callback }\<close>
  and its three siblings; both constructors attach the same four bodies. The result is
  \<open>None\<close> where JavaScript raises a TypeError that nothing catches: here, when
  \<^verbatim>\<open>#events.get(handler)\<close> is \<^verbatim>\<open>undefined\<close>.
\<close>

definition handler_onPermissionChange :: "hid \<Rightarrow> 'c \<Rightarrow> 'c world \<Rightarrow> 'c world option" where
  "handler_onPermissionChange handler callback w =
     (case events w handler of
        None \<Rightarrow> None
      | Some ev \<Rightarrow> Some (w\<lparr> events := (events w)(handler \<mapsto> ev\<lparr> onPermissionChange := Some callback \<rparr>) \<rparr>))"

definition handler_onPermissionGranted :: "hid \<Rightarrow> 'c \<Rightarrow> 'c world \<Rightarrow> 'c world option" where
  "handler_onPermissionGranted handler callback w =
     (case events w handler of
        None \<Rightarrow> None
      | Some ev \<Rightarrow> Some (w\<lparr> events := (events w)(handler \<mapsto> ev\<lparr> onPermissionGranted := Some callback \<rparr>) \<rparr>))"

definition handler_onPermissionDenied :: "hid \<Rightarrow> 'c \<Rightarrow> 'c world \<Rightarrow> 'c world option" where
  "handler_onPermissionDenied handler callback w =
     (case events w handler of
        None \<Rightarrow> None
      | Some ev \<Rightarrow> Some (w\<lparr> events := (events w)(handler \<mapsto> ev\<lparr> onPermissionDenied := Some callback \<rparr>) \<rparr>))"

definition handler_onPermissionError :: "hid \<Rightarrow> 'c \<Rightarrow> 'c world \<Rightarrow> 'c world option" where
  "handler_onPermissionError handler callback w =
     (case events w handler of
        None \<Rightarrow> None
      | Some ev \<Rightarrow> Some (w\<lparr> events := (events w)(handler \<mapsto> ev\<lparr> onPermissionError := Some callback \<rparr>) \<rparr>))"

text \<open>The four methods and the four slots by name, to speak of "every method".\<close>

datatype slot = OnPermissionChange | OnPermissionGranted | OnPermissionDenied | OnPermissionError

fun register :: "slot \<Rightarrow> hid \<Rightarrow> 'c \<Rightarrow> 'c world \<Rightarrow> 'c world option" where
  "register OnPermissionChange = handler_onPermissionChange"
| "register OnPermissionGranted = handler_onPermissionGranted"
| "register OnPermissionDenied = handler_onPermissionDenied"
| "register OnPermissionError = handler_onPermissionError"

fun slot_of :: "slot \<Rightarrow> 'c HandlerEvents \<Rightarrow> 'c option" where
  "slot_of OnPermissionChange = onPermissionChange"
| "slot_of OnPermissionGranted = onPermissionGranted"
| "slot_of OnPermissionDenied = onPermissionDenied"
| "slot_of OnPermissionError = onPermissionError"

subsection \<open>Calling a handler\<close>

text \<open>\<^verbatim>\<open>if (cb) cb(x)\<close>: the calls this statement makes.\<close>

definition call_if :: "'c option \<Rightarrow> arg \<Rightarrow> 'c call list" where
  "call_if cb x = (case cb of None \<Rightarrow> [] | Some c \<Rightarrow> [Call c x])"

definition emit :: "'c call list \<Rightarrow> 'c world \<Rightarrow> 'c world" where
  "emit cs w = w\<lparr> trace := trace w @ cs \<rparr>"

text \<open>\<^verbatim>\<open>handlerOption?.granted\<close>, \<^verbatim>\<open>handlerOption?.denied\<close>, \<^verbatim>\<open>handlerOption?.error\<close>.\<close>

definition opt_granted :: "'c PermissionHandlerOption option \<Rightarrow> 'c option" where
  "opt_granted handlerOption = (case handlerOption of None \<Rightarrow> None | Some ho \<Rightarrow> granted ho)"

definition opt_denied :: "'c PermissionHandlerOption option \<Rightarrow> 'c option" where
  "opt_denied handlerOption = (case handlerOption of None \<Rightarrow> None | Some ho \<Rightarrow> denied ho)"

definition opt_error :: "'c PermissionHandlerOption option \<Rightarrow> 'c option" where
  "opt_error handlerOption = (case handlerOption of None \<Rightarrow> None | Some ho \<Rightarrow> error ho)"

text \<open>The status object as a callback sees it when called now.\<close>

definition seen :: "'c world \<Rightarrow> ref \<Rightarrow> arg" where
  "seen w permission = Status permission (state (statuses w permission))"

definition set_onchange :: "ref \<Rightarrow> 'c listener \<Rightarrow> 'c world \<Rightarrow> 'c world" where
  "set_onchange permission l w =
     w\<lparr> statuses := (statuses w)(permission := (statuses w permission)\<lparr> onchange := Some l \<rparr>) \<rparr>"

definition set_promise ::
  "qid \<Rightarrow> (caught, AsyncPermissionResponse) promise \<Rightarrow> 'c world \<Rightarrow> 'c world"
where
  "set_promise q p w =
     w\<lparr> invocations := (invocations w)[q := (invocations w ! q)\<lparr> inv_promise := Some p \<rparr>] \<rparr>"

text \<open>
  What the callbacks do when called: for the calls made so far and the call made now,
  the value the call throws, or \<open>None\<close> when it returns.
\<close>

type_synonym 'c behaviour = "'c call list \<Rightarrow> 'c call \<Rightarrow> thrown option"

definition returning :: "'c behaviour" where
  "returning t c = None"

text \<open>
  A sequence of call statements: each call is made in turn and enters the trace, and the
  first that throws ends the sequence, the calls after it are not made. \<open>calls\<close> gives
  the trace after the calls that were made and the thrown value, if any; \<open>perform\<close> is
  the same on a world.
\<close>

fun calls :: "'c behaviour \<Rightarrow> 'c call list \<Rightarrow> 'c call list \<Rightarrow> 'c call list \<times> thrown option" where
  "calls b [] t = (t, None)"
| "calls b (c # cs) t =
     (case b t c of
        None \<Rightarrow> calls b cs (t @ [c])
      | Some x \<Rightarrow> (t @ [c], Some x))"

definition perform :: "'c behaviour \<Rightarrow> 'c call list \<Rightarrow> 'c world \<Rightarrow> 'c world \<times> thrown option" where
  "perform b cs w = (case calls b cs (trace w) of (t, x) \<Rightarrow> (w\<lparr> trace := t \<rparr>, x))"

text \<open>
  The \<^verbatim>\<open>.then\<close> and \<^verbatim>\<open>.catch\<close> callbacks of the sync handler. \<^verbatim>\<open>_events\<close> is the
  registration record of the handler, fetched when the handler was called and read
  when the callback runs; the record is stored once, by the constructor, so it is the
  record \<^verbatim>\<open>#events\<close> holds for the handler at that moment. Each gives the world it leaves
  and the value it threw, if a callback it called threw.
\<close>

definition sync_then ::
  "'c behaviour \<Rightarrow> hid \<Rightarrow> 'c PermissionHandlerOption option \<Rightarrow> ref \<Rightarrow> 'c world \<Rightarrow>
     ('c world \<times> thrown option) option"
where
  "sync_then b handler handlerOption permission w =
     (case events w handler of
        None \<Rightarrow> None
      | Some ev \<Rightarrow>
          let w1 = (if onPermissionChange ev \<noteq> None
                    then set_onchange permission (SyncChange handler handlerOption permission) w
                    else w)
          in Some (perform b
               (if state (statuses w1 permission) = Denied
                then call_if (onPermissionDenied ev) (seen w1 permission) @
                     call_if (opt_denied handlerOption) (seen w1 permission)
                else call_if (onPermissionGranted ev) (seen w1 permission) @
                     call_if (opt_granted handlerOption) (seen w1 permission))
               w1))"

definition sync_catch ::
  "'c behaviour \<Rightarrow> hid \<Rightarrow> 'c PermissionHandlerOption option \<Rightarrow> caught \<Rightarrow> 'c world \<Rightarrow>
     ('c world \<times> thrown option) option"
where
  "sync_catch b handler handlerOption err w =
     (case events w handler of
        None \<Rightarrow> None
      | Some ev \<Rightarrow>
          Some (perform b (call_if (onPermissionError ev) (Failure err) @
                           call_if (opt_error handlerOption) (Failure err)) w))"

text \<open>
  The same two callbacks of the async handler; \<open>q\<close> is the promise it returned. The
  call of \<^verbatim>\<open>resolve\<close> or \<^verbatim>\<open>reject\<close> is the last statement: it is not reached when the
  callback before it throws.
\<close>

definition async_then ::
  "'c behaviour \<Rightarrow> qid \<Rightarrow> hid \<Rightarrow> ref \<Rightarrow> 'c world \<Rightarrow> ('c world \<times> thrown option) option"
where
  "async_then b q handler permission w =
     (case events w handler of
        None \<Rightarrow> None
      | Some ev \<Rightarrow>
          let w1 = (if onPermissionChange ev \<noteq> None
                    then set_onchange permission (AsyncChange handler permission) w
                    else w)
          in if state (statuses w1 permission) = Denied
             then (case perform b (call_if (onPermissionDenied ev) (seen w1 permission)) w1 of
                     (w2, None) \<Rightarrow>
                       Some (set_promise q
                               (Resolved \<lparr> res_granted = None, res_denied = Some permission \<rparr>) w2,
                             None)
                   | (w2, Some x) \<Rightarrow> Some (w2, Some x))
             else (case perform b (call_if (onPermissionGranted ev) (seen w1 permission)) w1 of
                     (w2, None) \<Rightarrow>
                       Some (set_promise q
                               (Resolved \<lparr> res_granted = Some permission, res_denied = None \<rparr>) w2,
                             None)
                   | (w2, Some x) \<Rightarrow> Some (w2, Some x)))"

definition async_catch ::
  "'c behaviour \<Rightarrow> qid \<Rightarrow> hid \<Rightarrow> caught \<Rightarrow> 'c world \<Rightarrow> ('c world \<times> thrown option) option"
where
  "async_catch b q handler err w =
     (case events w handler of
        None \<Rightarrow> None
      | Some ev \<Rightarrow>
          (case perform b (call_if (onPermissionError ev) (Failure err)) w of
             (w2, None) \<Rightarrow> Some (set_promise q (Rejected err) w2, None)
           | (w2, Some x) \<Rightarrow> Some (w2, Some x)))"

text \<open>
  \<^verbatim>\<open>p.then(A).catch(B)\<close>: when \<open>p\<close> resolves, \<open>A\<close> runs, and \<open>B\<close> runs after it when
  \<open>A\<close> threw, with the thrown value; when \<open>p\<close> rejects, \<open>B\<close> alone runs, with the reason.
  What \<open>B\<close> throws is the reason the last promise of the chain is rejected with.
\<close>

definition then_catch ::
  "(PermissionError, ref) promise \<Rightarrow>
   (ref \<Rightarrow> 'c world \<Rightarrow> ('c world \<times> thrown option) option) \<Rightarrow>
   (caught \<Rightarrow> 'c world \<Rightarrow> ('c world \<times> thrown option) option) \<Rightarrow>
   'c world \<Rightarrow> ('c world \<times> thrown option) option"
where
  "then_catch p A B w =
     (case p of
        Pending \<Rightarrow> None
      | Resolved permission \<Rightarrow>
          (case A permission w of
             None \<Rightarrow> None
           | Some (w1, None) \<Rightarrow> Some (w1, None)
           | Some (w1, Some x) \<Rightarrow> B (Raw x) w1)
      | Rejected err \<Rightarrow> B (Classified err) w)"

text \<open>Nothing handles the last promise of the chain: its rejection is left unhandled.\<close>

definition drop_chain :: "('c world \<times> thrown option) option \<Rightarrow> 'c world option" where
  "drop_chain c =
     (case c of
        None \<Rightarrow> None
      | Some (w, None) \<Rightarrow> Some w
      | Some (w, Some x) \<Rightarrow> Some (w\<lparr> unhandled := unhandled w @ [x] \<rparr>))"

text \<open>
  \<^verbatim>\<open>handler()\<close>: the call starts the provider query and returns at once, \<^verbatim>\<open>undefined\<close>
  from the sync handler and a pending promise from the async one. The new invocation is
  the last of the list. There is no call of a function that was never created (\<open>None\<close>).
\<close>

definition invoke :: "hid \<Rightarrow> 'c world \<Rightarrow> (returned \<times> 'c world) option" where
  "invoke handler w =
     (if handler < length (handlers w)
      then (case handlers w ! handler of
              SyncHandler permissionOption handlerOption \<Rightarrow>
                Some (Undefined,
                      w\<lparr> invocations := invocations w @
                           [\<lparr> inv_handler = handler, inv_settled = False, inv_promise = None \<rparr>] \<rparr>)
            | AsyncHandler permissionOption \<Rightarrow>
                Some (Promise (length (invocations w)),
                      w\<lparr> invocations := invocations w @
                           [\<lparr> inv_handler = handler, inv_settled = False,
                              inv_promise = Some Pending \<rparr>] \<rparr>))
      else None)"

text \<open>
  The provider settles the query of invocation \<open>q\<close> with \<open>r\<close>, and the callbacks behave
  as \<open>b\<close> says: \<^verbatim>\<open>getPermission\<close> settles its promise and the chain
  \<^verbatim>\<open>.then(...).catch(...)\<close> of the handler runs. A query settles once.
\<close>

definition settle ::
  "'c behaviour \<Rightarrow> qid \<Rightarrow> PlatformError + ref \<Rightarrow> 'c world \<Rightarrow> 'c world option"
where
  "settle b q r w =
     (if q < length (invocations w) \<and> \<not> inv_settled (invocations w ! q) \<and>
         inv_handler (invocations w ! q) < length (handlers w)
      then
        let handler = inv_handler (invocations w ! q);
            w0 = w\<lparr> invocations :=
                     (invocations w)[q := (invocations w ! q)\<lparr> inv_settled := True \<rparr>] \<rparr>
        in (case handlers w ! handler of
              SyncHandler permissionOption handlerOption \<Rightarrow>
                drop_chain
                  (then_catch (getPermission (\<lambda>_. r) permissionOption)
                     (sync_then b handler handlerOption)
                     (sync_catch b handler handlerOption) w0)
            | AsyncHandler permissionOption \<Rightarrow>
                drop_chain
                  (then_catch (getPermission (\<lambda>_. r) permissionOption)
                     (async_then b q handler)
                     (async_catch b q handler) w0))
      else None)"

subsection \<open>Change events\<close>

text \<open>
  The bodies of the two \<^verbatim>\<open>onchange\<close> arrow functions. The last statement calls
  \<^verbatim>\<open>_events.onPermissionChange\<close> without a test; were the slot empty, the call would raise
  a TypeError (\<open>None\<close>). No statement of the class stands around these calls to catch
  anything: the bodies are given for callbacks that return.
\<close>

fun run_listener :: "'c listener \<Rightarrow> 'c world \<Rightarrow> 'c world option" where
  "run_listener (SyncChange handler handlerOption permission) w =
     (case events w handler of
        None \<Rightarrow> None
      | Some ev \<Rightarrow>
          (case onPermissionChange ev of
             None \<Rightarrow> None
           | Some change \<Rightarrow>
               Some (emit
                 ((if state (statuses w permission) = Denied
                   then call_if (onPermissionDenied ev) (seen w permission) @
                        call_if (opt_denied handlerOption) (seen w permission)
                   else []) @
                  [Call change (seen w permission)])
                 w)))"
| "run_listener (AsyncChange handler permission) w =
     (case events w handler of
        None \<Rightarrow> None
      | Some ev \<Rightarrow>
          (case onPermissionChange ev of
             None \<Rightarrow> None
           | Some change \<Rightarrow>
               Some (emit
                 ((if state (statuses w permission) = Denied \<and> onPermissionDenied ev \<noteq> None
                   then call_if (onPermissionDenied ev) (seen w permission)
                   else []) @
                  [Call change (seen w permission)])
                 w)))"

text \<open>
  The provider changes the state of a status object and dispatches its change event: the
  function in its \<^verbatim>\<open>onchange\<close> property, if any, runs.
\<close>

definition provider_change :: "ref \<Rightarrow> PermissionState \<Rightarrow> 'c world \<Rightarrow> 'c world option" where
  "provider_change permission s w =
     (let w1 = w\<lparr> statuses := (statuses w)(permission := (statuses w permission)\<lparr> state := s \<rparr>) \<rparr>
      in case onchange (statuses w1 permission) of
           None \<Rightarrow> Some w1
         | Some l \<Rightarrow> run_listener l w1)"

subsection \<open>The facade and its environment as a transition system\<close>

text \<open>
  What the application can do (construct a handler, register a callback, call a handler)
  and what the browser can do (settle a provider query, change a permission), one
  action at a time.
\<close>

datatype 'c action =
    GetPermissionHandler PermissionOption "'c PermissionHandlerOption option"
  | GetAsyncPermissionHandler PermissionOption
  | Register slot hid 'c
  | Invoke hid
  | Settle "'c behaviour" qid "PlatformError + ref"
  | Change ref PermissionState

fun step :: "'c action \<Rightarrow> 'c world \<Rightarrow> 'c world option" where
  "step (GetPermissionHandler permissionOption handlerOption) w =
     Some (snd (getPermissionHandler permissionOption handlerOption w))"
| "step (GetAsyncPermissionHandler permissionOption) w =
     Some (snd (getAsyncPermissionHandler permissionOption w))"
| "step (Register s handler callback) w = register s handler callback w"
| "step (Invoke handler) w = map_option snd (invoke handler w)"
| "step (Settle b q r) w = settle b q r w"
| "step (Change permission s) w = provider_change permission s w"

fun run :: "'c action list \<Rightarrow> 'c world \<Rightarrow> 'c world option" where
  "run [] w = Some w"
| "run (a # as) w = (case step a w of None \<Rightarrow> None | Some w' \<Rightarrow> run as w')"

text \<open>
  Invocation \<open>q\<close> is a call of \<open>handler\<close> whose provider query has not settled yet.
\<close>

definition awaiting :: "'c world \<Rightarrow> qid \<Rightarrow> hid \<Rightarrow> bool" where
  "awaiting w q handler \<longleftrightarrow>
     q < length (invocations w) \<and> \<not> inv_settled (invocations w ! q) \<and>
     inv_handler (invocations w ! q) = handler \<and> handler < length (handlers w)"

subsection \<open>Sample inputs\<close>

text \<open>
  Two requests, the error the platform throws for a name it does not know, a sample
  provider, and an options object.
\<close>

definition geolocation :: PermissionOption where
  "geolocation = \<lparr> name = ''geolocation'', sysex = None, userVisibleOnly = None \<rparr>"

definition teleport :: PermissionOption where
  "teleport = \<lparr> name = ''teleport'', sysex = None, userVisibleOnly = None \<rparr>"

definition type_error :: PlatformError where
  "type_error = \<lparr> error_name = ''TypeError'', error_message = ''not a valid PermissionName'' \<rparr>"

definition sample_query :: "PermissionOption \<Rightarrow> PlatformError + ref" where
  "sample_query option = (if name option = ''geolocation'' then Inr 7 else Inl type_error)"

text \<open>The provider of a document that is not fully active: every query fails.\<close>

definition invalid_state_error :: PlatformError where
  "invalid_state_error = \<lparr> error_name = ''InvalidStateError'', error_message = ''no active document'' \<rparr>"

definition detached_query :: "PermissionOption \<Rightarrow> PlatformError + ref" where
  "detached_query option = Inl invalid_state_error"


definition sample_options :: "string PermissionHandlerOption" where
  "sample_options = \<lparr> granted = Some ''options.granted'', denied = Some ''options.denied'',
     error = Some ''options.error'' \<rparr>"

text \<open>
  Three worlds in which a handler has been called once, the provider query still in
  flight. In the first (a sync handler) and the third (an async handler) all four slots
  are registered and the browser has already set one status object to \<^verbatim>\<open>denied\<close>,
  object 9 and object 7; in the second the handler has no options and no callback.
\<close>

definition sync_waiting :: "string world" where
  "sync_waiting = the (run
     [GetPermissionHandler geolocation (Some sample_options),
      Register OnPermissionChange 0 ''onPermissionChange'',
      Register OnPermissionGranted 0 ''onPermissionGranted'',
      Register OnPermissionDenied 0 ''onPermissionDenied'',
      Register OnPermissionError 0 ''onPermissionError'',
      Change 9 Denied,
      Invoke 0] initial)"



text \<open>
  Two handlers for the same request: the first is constructed, given a callback and
  called; then the second is constructed.
\<close>

definition first_made :: "string world" where
  "first_made = snd (getPermissionHandler geolocation None initial)"

definition first_called :: "string world" where
  "first_called = the (run [Register OnPermissionGranted 0 ''first.granted'', Invoke 0] first_made)"

definition both_made :: "string world" where
  "both_made = snd (getPermissionHandler geolocation None first_called)"

definition all_registered :: "string HandlerEvents" where
  "all_registered = \<lparr> onPermissionChange = Some ''onPermissionChange'',
     onPermissionGranted = Some ''onPermissionGranted'',
     onPermissionDenied = Some ''onPermissionDenied'',
     onPermissionError = Some ''onPermissionError'' \<rparr>"

lemmas operations =
  getPermissionHandler_def getAsyncPermissionHandler_def getHandler_def getAsyncHandler_def
  handler_onPermissionChange_def handler_onPermissionGranted_def
  handler_onPermissionDenied_def handler_onPermissionError_def
  invoke_def settle_def then_catch_def drop_chain_def perform_def
  getPermission_def sync_then_def sync_catch_def async_then_def
  async_catch_def set_onchange_def set_promise_def emit_def call_if_def seen_def
  no_events_def provider_change_def opt_granted_def opt_denied_def opt_error_def
  initial_def awaiting_def

section \<open>getPermission: what happens to a provider failure\<close>

lemma getPermission_failure:
  assumes "query option = Inl err"
  shows "getPermission query option =
           Rejected \<lparr> e_state = (if error_name err = ''TypeError'' then Unsupported else Invalid),
                      e_name = error_name err, e_message = error_message err \<rparr>"
  using assms by (simp add: getPermission_def)

lemma getPermission_success:
  assumes "query option = Inr status"
  shows "getPermission query option = Resolved status"
  using assms by (simp add: getPermission_def)

text \<open>
  C1, as stated: when the provider call fails, the promise of \<^verbatim>\<open>getPermission\<close> resolves
  (it does not reject) to a classified error outcome. The code does the opposite: for
  the request \<open>teleport\<close>, whose name the sample provider refuses with a TypeError, the
  promise is not resolved; it is rejected.
\<close>

theorem getPermission_resolves_counterexample:
  "\<not> is_Resolved (getPermission sample_query teleport) \<and>
   is_Rejected (getPermission sample_query teleport)"
  by (simp add: getPermission_def sample_query_def teleport_def type_error_def)

text \<open>
  C1, amended: for every request whose provider call fails, the promise of
  \<^verbatim>\<open>getPermission\<close> settles by rejecting (it is neither resolved nor left pending), and
  the reason of the rejection is never the raw platform error: it is an error outcome
  that carries the name and the message of the platform error and one of the two states,
  which is \<^verbatim>\<open>unsupported\<close> whenever the platform error is a TypeError (the error the
  platform throws for a name it does not recognize).
\<close>

theorem getPermission_failure_rejects:
  assumes "query option = Inl err"
  shows "is_Rejected (getPermission query option) \<and>
         \<not> is_Resolved (getPermission query option) \<and>
         \<not> is_Pending (getPermission query option) \<and>
         e_name (reason (getPermission query option)) = error_name err \<and>
         e_message (reason (getPermission query option)) = error_message err \<and>
         (e_state (reason (getPermission query option)) = Unsupported \<or>
          e_state (reason (getPermission query option)) = Invalid) \<and>
         (error_name err = ''TypeError'' \<longrightarrow>
            e_state (reason (getPermission query option)) = Unsupported)"
  using assms by (simp add: getPermission_def)

theorem getPermission_failure_rejects_witness:
  "sample_query teleport = Inl type_error \<and>
   is_Rejected (getPermission sample_query teleport) \<and>
   e_state (reason (getPermission sample_query teleport)) = Unsupported \<and>
   e_name (reason (getPermission sample_query teleport)) = ''TypeError''"
proof -
  have h: "sample_query teleport = Inl type_error"
    by (simp add: sample_query_def teleport_def type_error_def)
  show ?thesis
    using h getPermission_failure_rejects [of sample_query teleport type_error, OF h]
    by (simp add: type_error_def)
qed

text \<open>
  C2, as stated: a failure that the provider reports as a type or shape violation gets
  the state \<^verbatim>\<open>invalid\<close>. The platform reports such a violation as a TypeError, and a
  TypeError is the one error the code gives the state \<^verbatim>\<open>unsupported\<close>.
\<close>

theorem type_violation_invalid_counterexample:
  "sample_query teleport = Inl type_error \<and> error_name type_error = ''TypeError'' \<and>
   is_Rejected (getPermission sample_query teleport) \<and>
   e_state (reason (getPermission sample_query teleport)) \<noteq> Invalid"
  by (simp add: getPermission_def sample_query_def teleport_def type_error_def)

text \<open>
  C2, amended: every provider failure caught by \<^verbatim>\<open>getPermission\<close> is classified into
  exactly two subkinds, by the name of the platform error alone: a failure named
  \<^verbatim>\<open>TypeError\<close> (the platform's report of a type or shape violation, and of a name it does
  not recognize) gives the state \<^verbatim>\<open>unsupported\<close>; every other failure gives the state
  \<^verbatim>\<open>invalid\<close>.
\<close>

theorem getPermission_classifies:
  assumes "query option = Inl err"
  shows "\<exists>e. getPermission query option = Rejected e \<and>
           (error_name err = ''TypeError'' \<longrightarrow> e_state e = Unsupported) \<and>
           (error_name err \<noteq> ''TypeError'' \<longrightarrow> e_state e = Invalid) \<and>
           (e_state e = Unsupported \<or> e_state e = Invalid)"
  using assms by (simp add: getPermission_def)

theorem getPermission_classifies_witness:
  "detached_query geolocation = Inl invalid_state_error \<and>
   getPermission detached_query geolocation =
     Rejected \<lparr> e_state = Invalid, e_name = ''InvalidStateError'',
                e_message = ''no active document'' \<rparr>"
proof -
  have h: "detached_query geolocation = Inl invalid_state_error"
    by (simp add: detached_query_def invalid_state_error_def)
  show ?thesis
    using h getPermission_classifies [of detached_query geolocation invalid_state_error, OF h]
    by (auto simp add: getPermission_def invalid_state_error_def)
qed

section \<open>Sequences of calls\<close>

lemma calls_returns:
  assumes "\<forall>t. \<forall>c \<in> set cs. b t c = None"
  shows "calls b cs t = (t @ cs, None)"
  using assms
  by (induction cs arbitrary: t) simp_all





section \<open>The async handler\<close>




section \<open>The sync handler\<close>







section \<open>Registration\<close>

text \<open>
  C8: for every handler and each of the four registration methods, calling the method
  stores the callback in the slot of the same name of that handler's registration
  record, whatever the slot held before (the slot holds one callback, the last one
  stored); the other three slots of the record, the records of all other handlers and
  the rest of the world stay as they were.
\<close>

theorem register_overwrites_slot:
  assumes "events w handler = Some ev"
  shows "\<exists>w' ev'. register s handler callback w = Some w' \<and>
           events w' handler = Some ev' \<and>
           slot_of s ev' = Some callback \<and>
           (\<forall>s'. s' \<noteq> s \<longrightarrow> slot_of s' ev' = slot_of s' ev) \<and>
           (\<forall>h. h \<noteq> handler \<longrightarrow> events w' h = events w h) \<and>
           handlers w' = handlers w \<and> statuses w' = statuses w \<and>
           invocations w' = invocations w \<and> trace w' = trace w \<and>
           unhandled w' = unhandled w"
proof (cases s)
  case OnPermissionChange
  have "\<forall>s'. s' \<noteq> OnPermissionChange \<longrightarrow>
          slot_of s' (ev\<lparr> onPermissionChange := Some callback \<rparr>) = slot_of s' ev"
    by (rule allI, case_tac s') simp_all
  with assms OnPermissionChange show ?thesis
    by (simp add: handler_onPermissionChange_def)
next
  case OnPermissionGranted
  have "\<forall>s'. s' \<noteq> OnPermissionGranted \<longrightarrow>
          slot_of s' (ev\<lparr> onPermissionGranted := Some callback \<rparr>) = slot_of s' ev"
    by (rule allI, case_tac s') simp_all
  with assms OnPermissionGranted show ?thesis
    by (simp add: handler_onPermissionGranted_def)
next
  case OnPermissionDenied
  have "\<forall>s'. s' \<noteq> OnPermissionDenied \<longrightarrow>
          slot_of s' (ev\<lparr> onPermissionDenied := Some callback \<rparr>) = slot_of s' ev"
    by (rule allI, case_tac s') simp_all
  with assms OnPermissionDenied show ?thesis
    by (simp add: handler_onPermissionDenied_def)
next
  case OnPermissionError
  have "\<forall>s'. s' \<noteq> OnPermissionError \<longrightarrow>
          slot_of s' (ev\<lparr> onPermissionError := Some callback \<rparr>) = slot_of s' ev"
    by (rule allI, case_tac s') simp_all
  with assms OnPermissionError show ?thesis
    by (simp add: handler_onPermissionError_def)
qed

theorem register_overwrites_slot_witness:
  "events sync_waiting 0 = Some all_registered \<and>
   map_option (\<lambda>w. events w 0) (register OnPermissionGranted 0 ''second'' sync_waiting) =
     Some (Some \<lparr> onPermissionChange = Some ''onPermissionChange'',
                   onPermissionGranted = Some ''second'',
                   onPermissionDenied = Some ''onPermissionDenied'',
                   onPermissionError = Some ''onPermissionError'' \<rparr>)"
proof -
  have h: "events sync_waiting 0 = Some all_registered"
    by (simp add: sync_waiting_def geolocation_def sample_options_def all_registered_def operations)
  show ?thesis
    using h register_overwrites_slot [OF h, of OnPermissionGranted "''second''"]
    by (simp add: sync_waiting_def geolocation_def sample_options_def all_registered_def operations)
qed

section \<open>Change notifications\<close>





















section \<open>Isolation of handlers\<close>

text \<open>Handler objects are never destroyed: no action shortens the list of handlers.\<close>

lemma register_world:
  assumes "register s x callback v = Some v'"
  shows "\<exists>e. v' = v\<lparr> events := (events v)(x \<mapsto> e) \<rparr>"
  using assms
  by (cases s)
     (auto simp add: handler_onPermissionChange_def handler_onPermissionGranted_def
        handler_onPermissionDenied_def handler_onPermissionError_def split: option.splits)

lemma settle_handlers:
  assumes "settle b q r w = Some w'"
  shows "handlers w' = handlers w"
  using assms
  by (auto simp add: settle_def getPermission_def then_catch_def drop_chain_def perform_def
        sync_then_def sync_catch_def async_then_def
        async_catch_def set_onchange_def set_promise_def Let_def
      split: if_splits handler.splits option.splits sum.splits prod.splits)

lemma run_listener_handlers:
  assumes "run_listener l w = Some w'"
  shows "handlers w' = handlers w"
  using assms
  by (cases l) (auto simp add: emit_def split: option.splits)

lemma provider_change_handlers:
  assumes "provider_change p st w = Some w'"
  shows "handlers w' = handlers w"
  using assms run_listener_handlers
  by (fastforce simp add: provider_change_def Let_def split: option.splits)

lemma step_handlers_mono:
  assumes "step a w = Some w'"
  shows "length (handlers w) \<le> length (handlers w')"
proof (cases a)
  case (GetPermissionHandler po ho)
  with assms show ?thesis
    by (auto simp add: getPermissionHandler_def getHandler_def Let_def)
next
  case (GetAsyncPermissionHandler po)
  with assms show ?thesis
    by (auto simp add: getAsyncPermissionHandler_def getAsyncHandler_def Let_def)
next
  case (Register s h c)
  with assms register_world [of s h c w w'] show ?thesis
    by auto
next
  case (Invoke h)
  with assms show ?thesis
    by (auto simp add: invoke_def split: if_splits handler.splits)
next
  case (Settle b q r)
  with assms settle_handlers [of b q r w w'] show ?thesis
    by simp
next
  case (Change p st)
  with assms provider_change_handlers [of p st w w'] show ?thesis
    by simp
qed

lemma run_handlers_mono:
  assumes "run as w = Some w'"
  shows "length (handlers w) \<le> length (handlers w')"
  using assms
proof (induction as arbitrary: w)
  case Nil
  then show ?case by simp
next
  case (Cons a as)
  then obtain v where v: "step a w = Some v" "run as v = Some w'"
    by (auto split: option.splits)
  from step_handlers_mono [OF v(1)] Cons.IH [OF v(2)] show ?case
    by simp
qed

text \<open>
  Every handler the constructors have made has a registration record: the lookups
  \<^verbatim>\<open>#events.get(handler)\<close> of the registration methods and of the handlers find one, in
  every world the actions lead to from the initial one.
\<close>

lemma settle_events:
  assumes "settle b q r w = Some w'"
  shows "events w' = events w"
  using assms
  by (auto simp add: settle_def getPermission_def then_catch_def drop_chain_def perform_def
        sync_then_def sync_catch_def async_then_def
        async_catch_def set_onchange_def set_promise_def Let_def
      split: if_splits handler.splits option.splits sum.splits prod.splits)

lemma provider_change_events:
  assumes "provider_change p st w = Some w'"
  shows "events w' = events w"
proof (cases "onchange (statuses w p)")
  case None
  with assms show ?thesis
    by (auto simp add: provider_change_def Let_def)
next
  case (Some l)
  with assms show ?thesis
    by (cases l) (auto simp add: provider_change_def emit_def Let_def split: option.splits)
qed

lemma step_registered:
  assumes "step a w = Some w'"
    and "\<forall>h < length (handlers w). events w h \<noteq> None"
  shows "\<forall>h < length (handlers w'). events w' h \<noteq> None"
proof (cases a)
  case (GetPermissionHandler po ho)
  with assms show ?thesis
    by (auto simp add: getPermissionHandler_def getHandler_def Let_def less_Suc_eq)
next
  case (GetAsyncPermissionHandler po)
  with assms show ?thesis
    by (auto simp add: getAsyncPermissionHandler_def getAsyncHandler_def Let_def less_Suc_eq)
next
  case (Register s h c)
  with assms register_world [of s h c w w'] show ?thesis
    by auto
next
  case (Invoke h)
  with assms show ?thesis
    by (auto simp add: invoke_def split: if_splits handler.splits)
next
  case (Settle b q r)
  with assms settle_handlers [of b q r w w'] settle_events [of b q r w w'] show ?thesis
    by simp
next
  case (Change p st)
  with assms provider_change_handlers [of p st w w'] provider_change_events [of p st w w']
  show ?thesis
    by simp
qed

lemma run_registered:
  assumes "run as w = Some w'"
    and "\<forall>h < length (handlers w). events w h \<noteq> None"
  shows "\<forall>h < length (handlers w'). events w' h \<noteq> None"
  using assms
proof (induction as arbitrary: w)
  case Nil
  then show ?case by simp
next
  case (Cons a as)
  then obtain v where v: "step a w = Some v" "run as v = Some w'"
    by (auto split: option.splits)
  from step_registered [OF v(1) Cons.prems(2)] Cons.IH [OF v(2)] show ?case
    by blast
qed

lemma reachable_handlers_registered:
  assumes "run as initial = Some w"
    and "h < length (handlers w)"
  shows "\<exists>ev. events w h = Some ev"
proof -
  have "\<forall>h < length (handlers (initial :: 'a world)). events (initial :: 'a world) h \<noteq> None"
    by (simp add: initial_def)
  from run_registered [OF assms(1) this] assms(2) show ?thesis
    by auto
qed

text \<open>
  What a handler does reads the registration store at the handler's own key only: a
  store that differs at another key gives the same calls.
\<close>

lemma settle_frame:
  assumes "inv_handler (invocations v ! q) \<noteq> x"
  shows "map_option trace (settle f q r (v\<lparr> events := (events v)(x \<mapsto> e) \<rparr>)) =
         map_option trace (settle f q r v)"
  using assms
  by (cases r; cases "handlers v ! inv_handler (invocations v ! q)";
      cases "events v (inv_handler (invocations v ! q))")
     (auto simp add: settle_def then_catch_def drop_chain_def getPermission_def sync_then_def
        sync_catch_def async_then_def async_catch_def set_onchange_def set_promise_def
        perform_def seen_def Let_def
        split: prod.splits option.splits)

lemma change_frame:
  assumes "onchange (statuses v p) = Some l"
    and "owner l \<noteq> x"
  shows "map_option trace (provider_change p st (v\<lparr> events := (events v)(x \<mapsto> e) \<rparr>)) =
         map_option trace (provider_change p st v)"
  using assms
  by (cases l)
     (simp_all add: provider_change_def emit_def seen_def call_if_def Let_def
        split: option.splits)

lemma register_frame:
  assumes "x \<noteq> y"
    and "register s x callback v = Some v'"
  shows "events v' y = events v y \<and>
         (\<forall>f q r. inv_handler (invocations v ! q) = y \<longrightarrow>
            map_option trace (settle f q r v') = map_option trace (settle f q r v)) \<and>
         (\<forall>p st l. onchange (statuses v p) = Some l \<and> owner l = y \<longrightarrow>
            map_option trace (provider_change p st v') = map_option trace (provider_change p st v))"
proof -
  from register_world [OF assms(2)] obtain e where e: "v' = v\<lparr> events := (events v)(x \<mapsto> e) \<rparr>"
    by blast
  have "events v' y = events v y"
    using e assms(1) by simp
  moreover have "\<forall>f q r. inv_handler (invocations v ! q) = y \<longrightarrow>
            map_option trace (settle f q r v') = map_option trace (settle f q r v)"
    using e assms(1) settle_frame [of v _ x _ _ e] by auto
  moreover have "\<forall>p st l. onchange (statuses v p) = Some l \<and> owner l = y \<longrightarrow>
            map_option trace (provider_change p st v') = map_option trace (provider_change p st v)"
    using e assms(1) change_frame [of v _ _ x _ e] by auto
  ultimately show ?thesis by blast
qed

text \<open>
  C7: two handlers constructed by separate calls of the constructors (of either kind,
  for any requests, the same or not, with anything happening in between) are two keys
  of the registration store, and each constructor call stores a new, empty registration
  record under the key of its handler and touches no other record. Registration state is
  therefore disjoint: registering a callback on one of the two changes nothing in the
  record of the other, and the calls made when an invocation of the other settles (whatever the callbacks do), or
  when a change listener of the other runs, are the same as without the registration.
\<close>

theorem registrations_are_disjoint:
  assumes "(a, wa) = getPermissionHandler po ho w \<or> (a, wa) = getAsyncPermissionHandler po w"
    and "run as wa = Some w'"
    and "(b, wb) = getPermissionHandler po' ho' w' \<or> (b, wb) = getAsyncPermissionHandler po' w'"
  shows "a \<noteq> b \<and>
         events wa a = Some no_events \<and> (\<forall>h. h \<noteq> a \<longrightarrow> events wa h = events w h) \<and>
         events wb b = Some no_events \<and> (\<forall>h. h \<noteq> b \<longrightarrow> events wb h = events w' h) \<and>
         (\<forall>s callback v v'. register s a callback v = Some v' \<longrightarrow>
            events v' b = events v b \<and>
            (\<forall>f q r. inv_handler (invocations v ! q) = b \<longrightarrow>
               map_option trace (settle f q r v') = map_option trace (settle f q r v)) \<and>
            (\<forall>p st l. onchange (statuses v p) = Some l \<and> owner l = b \<longrightarrow>
               map_option trace (provider_change p st v') =
               map_option trace (provider_change p st v))) \<and>
         (\<forall>s callback v v'. register s b callback v = Some v' \<longrightarrow>
            events v' a = events v a \<and>
            (\<forall>f q r. inv_handler (invocations v ! q) = a \<longrightarrow>
               map_option trace (settle f q r v') = map_option trace (settle f q r v)) \<and>
            (\<forall>p st l. onchange (statuses v p) = Some l \<and> owner l = a \<longrightarrow>
               map_option trace (provider_change p st v') =
               map_option trace (provider_change p st v)))"
proof -
  from assms(1) have a: "a = length (handlers w)" "length (handlers wa) = Suc (length (handlers w))"
    "events wa a = Some no_events" "\<forall>h. h \<noteq> a \<longrightarrow> events wa h = events w h"
    by (auto simp add: getPermissionHandler_def getAsyncPermissionHandler_def getHandler_def
        getAsyncHandler_def Let_def)
  from assms(3) have b: "b = length (handlers w')"
    "events wb b = Some no_events" "\<forall>h. h \<noteq> b \<longrightarrow> events wb h = events w' h"
    by (auto simp add: getPermissionHandler_def getAsyncPermissionHandler_def getHandler_def
        getAsyncHandler_def Let_def)
  from run_handlers_mono [OF assms(2)] a(1,2) b(1) have ab: "a \<noteq> b" "b \<noteq> a"
    by simp_all
  from register_frame [OF ab(1)] have fa:
    "\<forall>s callback v v'. register s a callback v = Some v' \<longrightarrow>
            events v' b = events v b \<and>
            (\<forall>f q r. inv_handler (invocations v ! q) = b \<longrightarrow>
               map_option trace (settle f q r v') = map_option trace (settle f q r v)) \<and>
            (\<forall>p st l. onchange (statuses v p) = Some l \<and> owner l = b \<longrightarrow>
               map_option trace (provider_change p st v') =
               map_option trace (provider_change p st v))"
    by blast
  from register_frame [OF ab(2)] have fb:
    "\<forall>s callback v v'. register s b callback v = Some v' \<longrightarrow>
            events v' a = events v a \<and>
            (\<forall>f q r. inv_handler (invocations v ! q) = a \<longrightarrow>
               map_option trace (settle f q r v') = map_option trace (settle f q r v)) \<and>
            (\<forall>p st l. onchange (statuses v p) = Some l \<and> owner l = a \<longrightarrow>
               map_option trace (provider_change p st v') =
               map_option trace (provider_change p st v))"
    by blast
  from ab(1) a(3,4) b(2,3) fa fb show ?thesis
    by blast
qed

theorem registrations_are_disjoint_witness:
  "((0, first_made) = getPermissionHandler geolocation None initial \<or>
    (0, first_made) = getAsyncPermissionHandler geolocation initial) \<and>
   run [Register OnPermissionGranted 0 ''first.granted'', Invoke 0] first_made = Some first_called \<and>
   ((1, both_made) = getPermissionHandler geolocation None first_called \<or>
    (1, both_made) = getAsyncPermissionHandler geolocation first_called) \<and>
   events both_made 0 = Some (no_events\<lparr> onPermissionGranted := Some ''first.granted'' \<rparr>) \<and>
   events both_made 1 = Some no_events \<and>
   map_option trace (run [Invoke 1, Settle returning 1 (Inr 7)] both_made) = Some [] \<and>
   map_option trace (run [Invoke 1, Settle returning 0 (Inr 7)] both_made) =
     Some [Call ''first.granted'' (Status 7 Prompt)]"
proof -
  have h1: "(0, first_made) = getPermissionHandler geolocation None initial \<or>
            (0, first_made) = getAsyncPermissionHandler geolocation initial"
    by (simp add: first_made_def first_called_def both_made_def geolocation_def returning_def operations)
  have h2: "run [Register OnPermissionGranted 0 ''first.granted'', Invoke 0] first_made =
            Some first_called"
    by (simp add: first_made_def first_called_def both_made_def geolocation_def returning_def operations)
  have h3: "(1, both_made) = getPermissionHandler geolocation None first_called \<or>
            (1, both_made) = getAsyncPermissionHandler geolocation first_called"
    by (simp add: first_made_def first_called_def both_made_def geolocation_def returning_def operations)
  show ?thesis
    using h1 h2 h3 registrations_are_disjoint [OF h1 h2 h3]
    by (simp add: first_made_def first_called_def both_made_def geolocation_def returning_def operations)
qed

end
